theory Spec2Isabelle
  imports Complex_Main "HOL-Library.Word" "HOL-Library.Log_Nat"
begin

section \<open>The C++ type double: IEEE 754 binary64\<close>

text \<open>
  \<^verbatim>\<open>Size.h\<close> stores two \<^verbatim>\<open>double\<close> fields and uses the built-in operators
  \<^verbatim>\<open>*\<close>, \<^verbatim>\<open>+\<close>, \<^verbatim>\<open>-\<close>, \<^verbatim>\<open>==\<close>, \<^verbatim>\<open>!=\<close>, \<^verbatim>\<open><\<close> (inside \<^verbatim>\<open>std::max\<close>) and \<^verbatim>\<open>></\<close>
  on them. A \<^verbatim>\<open>double\<close> is modelled by its 64 bits: bit 63 is the sign, bits 62..52 the
  biased exponent, bits 51..0 the fraction. Every 64-bit word is a double, so a statement
  about all words is a statement about all doubles, the infinities and the NaNs included.
  Arithmetic is the default one of C++ on IEEE hardware: round to nearest, ties to even.
\<close>

type_synonym double = "64 word"

definition sign_of :: "double \<Rightarrow> bool" where
  "sign_of x = bit x 63"

definition magnitude :: "double \<Rightarrow> nat" where
  \<comment> \<open>the 63 bits below the sign, read as a number\<close>
  "magnitude x = unat (take_bit 63 x)"

definition biased_exponent :: "double \<Rightarrow> nat" where
  "biased_exponent x = magnitude x div 2 ^ 52"

definition fraction :: "double \<Rightarrow> nat" where
  "fraction x = magnitude x mod 2 ^ 52"

definition is_nan :: "double \<Rightarrow> bool" where
  "is_nan x = (biased_exponent x = 2047 \<and> fraction x \<noteq> 0)"

definition is_inf :: "double \<Rightarrow> bool" where
  "is_inf x = (biased_exponent x = 2047 \<and> fraction x = 0)"

definition is_finite :: "double \<Rightarrow> bool" where
  "is_finite x = (biased_exponent x < 2047)"

definition is_zero :: "double \<Rightarrow> bool" where
  "is_zero x = (magnitude x = 0)"

definition scaled :: "double \<Rightarrow> nat" where
  \<comment> \<open>the absolute value in units of \<open>2 ^ -1074\<close>, the smallest positive double; every
      finite double is a whole number of them. An infinity counts as \<open>2 ^ 1024\<close>, above
      every finite double. Not used on a NaN.\<close>
  "scaled x =
     (if biased_exponent x = 0 then fraction x
      else (2 ^ 52 + fraction x) * 2 ^ (biased_exponent x - 1))"

definition fixed :: "double \<Rightarrow> int" where
  \<comment> \<open>the signed value in units of \<open>2 ^ -1074\<close>\<close>
  "fixed x = (if sign_of x then - int (scaled x) else int (scaled x))"

definition valof :: "double \<Rightarrow> real" where
  \<comment> \<open>the real number a finite double stands for\<close>
  "valof x = real_of_int (fixed x) / 2 ^ 1074"

definition inf_bits :: nat where
  "inf_bits = 2047 * 2 ^ 52"

definition pack :: "bool \<Rightarrow> nat \<Rightarrow> double" where
  \<comment> \<open>a sign and 63 bits of exponent and fraction\<close>
  "pack s n = or (if s then push_bit 63 1 else 0) (word_of_nat n)"

definition default_nan :: double where
  \<comment> \<open>the quiet NaN an invalid operation produces\<close>
  "default_nan = pack True (inf_bits + 2 ^ 51)"

definition quiet :: "double \<Rightarrow> double" where
  \<comment> \<open>a NaN operand is passed on with its quiet bit set\<close>
  "quiet x = or x (push_bit 51 1)"

subsection \<open>Rounding\<close>

definition rne :: "nat \<Rightarrow> nat \<Rightarrow> nat" where
  \<comment> \<open>the whole number nearest to \<open>a / b\<close>, the even one of two equally near\<close>
  "rne a b =
     (let n = a div b; r = a mod b
      in if 2 * r < b \<or> (2 * r = b \<and> even n) then n else n + 1)"

definition flog2 :: "nat \<Rightarrow> nat \<Rightarrow> int" where
  \<comment> \<open>\<open>\<lfloor>log\<^sub>2 (p / q)\<rfloor>\<close> for positive \<open>p\<close> and \<open>q\<close>, from their bit lengths\<close>
  "flog2 p q =
     (let d = int (floorlog 2 p) - int (floorlog 2 q)
      in if (if 0 \<le> d then q * 2 ^ nat d \<le> p else q \<le> p * 2 ^ nat (- d)) then d else d - 1)"

definition round_double :: "bool \<Rightarrow> nat \<Rightarrow> nat \<Rightarrow> double" where
  \<comment> \<open>the double nearest to \<open>\<plusminus> p / q\<close> (\<open>q > 0\<close>), ties to even. The significand is
      \<open>p / q\<close> in units of \<open>2 ^ e\<close>, rounded to a whole number \<open>m \<le> 2 ^ 53\<close>; the exponent
      \<open>e\<close> is that of a normal number, or \<open>-1074\<close> for a subnormal one. Exponent field and
      significand are added, so that a significand rounded up to \<open>2 ^ 53\<close> carries into the
      exponent; a result from \<open>2 ^ 1024\<close> on is an infinity.\<close>
  "round_double s p q =
     (if p = 0 then pack s 0
      else
        let e = max (flog2 p q - 52) (- 1074);
            m = (if 0 \<le> e then rne p (q * 2 ^ nat e) else rne (p * 2 ^ nat (- e)) q);
            bits = nat (e + 1074) * 2 ^ 52 + m
        in if inf_bits \<le> bits then pack s inf_bits else pack s bits)"

subsection \<open>The operators of double\<close>

definition fadd :: "double \<Rightarrow> double \<Rightarrow> double" where
  \<comment> \<open>\<^verbatim>\<open>x + y\<close>: an exact zero sum is \<open>-0\<close> only when both operands are negative\<close>
  "fadd x y =
     (if is_nan x then quiet x
      else if is_nan y then quiet y
      else if is_inf x then (if is_inf y \<and> sign_of x \<noteq> sign_of y then default_nan else x)
      else if is_inf y then y
      else
        let r = fixed x + fixed y
        in if r = 0 then pack (sign_of x \<and> sign_of y) 0
           else round_double (r < 0) (nat \<bar>r\<bar>) (2 ^ 1074))"

definition fneg :: "double \<Rightarrow> double" where
  "fneg x = xor x (push_bit 63 1)"

definition fsub :: "double \<Rightarrow> double \<Rightarrow> double" where
  \<comment> \<open>\<^verbatim>\<open>x - y\<close>: the sum of \<open>x\<close> and the negated \<open>y\<close>; a NaN operand is passed on unchanged\<close>
  "fsub x y =
     (if is_nan x then quiet x
      else if is_nan y then quiet y
      else fadd x (fneg y))"

definition fmul :: "double \<Rightarrow> double \<Rightarrow> double" where
  \<comment> \<open>\<^verbatim>\<open>x * y\<close>: zero times infinity is invalid\<close>
  "fmul x y =
     (if is_nan x then quiet x
      else if is_nan y then quiet y
      else if is_inf x \<or> is_inf y then
        (if is_zero x \<or> is_zero y then default_nan
         else pack (sign_of x \<noteq> sign_of y) inf_bits)
      else round_double (sign_of x \<noteq> sign_of y) (scaled x * scaled y) (2 ^ 2148))"

definition feq :: "double \<Rightarrow> double \<Rightarrow> bool" where
  \<comment> \<open>\<^verbatim>\<open>x == y\<close>: false when an operand is a NaN; \<open>+0\<close> and \<open>-0\<close> are equal\<close>
  "feq x y = (\<not> is_nan x \<and> \<not> is_nan y \<and> fixed x = fixed y)"

definition fne :: "double \<Rightarrow> double \<Rightarrow> bool" where
  \<comment> \<open>\<^verbatim>\<open>x != y\<close>: true when an operand is a NaN\<close>
  "fne x y = (is_nan x \<or> is_nan y \<or> fixed x \<noteq> fixed y)"

definition flt :: "double \<Rightarrow> double \<Rightarrow> bool" where
  \<comment> \<open>\<^verbatim>\<open>x < y\<close>: false when an operand is a NaN\<close>
  "flt x y = (\<not> is_nan x \<and> \<not> is_nan y \<and> fixed x < fixed y)"

definition fgt :: "double \<Rightarrow> double \<Rightarrow> bool" where
  \<comment> \<open>\<^verbatim>\<open>x > y\<close>: false when an operand is a NaN\<close>
  "fgt x y = (\<not> is_nan x \<and> \<not> is_nan y \<and> fixed y < fixed x)"

definition std_max :: "double \<Rightarrow> double \<Rightarrow> double" where
  \<comment> \<open>\<^verbatim>\<open>std::max(a, b)\<close> is \<^verbatim>\<open>(a < b) ? b : a\<close>\<close>
  "std_max a b = (if flt a b then b else a)"

section \<open>Size\<close>

record Size =
  width :: double
  height :: double

definition Size_default :: Size where
  \<comment> \<open>\<^verbatim>\<open>Size() : width(0.0), height(0.0)\<close>\<close>
  "Size_default = \<lparr>width = 0, height = 0\<rparr>"

definition operator_mul :: "Size \<Rightarrow> double \<Rightarrow> Size" where
  "operator_mul this scale = \<lparr>width = fmul (width this) scale, height = fmul (height this) scale\<rparr>"

definition operator_eq :: "Size \<Rightarrow> Size \<Rightarrow> bool" where
  "operator_eq this s = (feq (width s) (width this) \<and> feq (height s) (height this))"

definition operator_ne :: "Size \<Rightarrow> Size \<Rightarrow> bool" where
  "operator_ne this s = (fne (width s) (width this) \<or> fne (height s) (height this))"

definition operator_add :: "Size \<Rightarrow> Size \<Rightarrow> Size" where
  "operator_add this s = \<lparr>width = fadd (width this) (width s), height = fadd (height this) (height s)\<rparr>"

definition operator_sub :: "Size \<Rightarrow> Size \<Rightarrow> Size" where
  "operator_sub this s = \<lparr>width = fsub (width this) (width s), height = fsub (height this) (height s)\<rparr>"

definition unionWith :: "Size \<Rightarrow> Size \<Rightarrow> Size" where
  "unionWith this o' = \<lparr>width = std_max (width this) (width o'), height = std_max (height this) (height o')\<rparr>"

definition isZero :: "Size \<Rightarrow> bool" where
  "isZero this = feq (fmul (width this) (height this)) 0"

definition isPositive :: "Size \<Rightarrow> bool" where
  "isPositive this = (fgt (width this) 0 \<and> fgt (height this) 0)"

section \<open>Equality and inequality\<close>

lemma fne_iff_not_feq: "fne x y = (\<not> feq x y)"
  by (auto simp: fne_def feq_def)

lemma feq_commute: "feq x y = feq y x"
  by (auto simp: feq_def)

text \<open>
  C6. For every pair of sizes, \<^verbatim>\<open>a != b\<close> is the negation of \<^verbatim>\<open>a == b\<close>, and \<^verbatim>\<open>a == b\<close>
  holds exactly when no field is a NaN and both fields have the same value (so that a size
  with a NaN field is unequal to every size, itself included).
\<close>

theorem operator_ne_is_not_operator_eq:
  "operator_ne a b = (\<not> operator_eq a b) \<and>
   operator_eq a b =
     (feq (width a) (width b) \<and> feq (height a) (height b)) \<and>
   operator_eq a b =
     ((\<not> is_nan (width a) \<and> \<not> is_nan (width b) \<and> fixed (width a) = fixed (width b)) \<and>
      (\<not> is_nan (height a) \<and> \<not> is_nan (height b) \<and> fixed (height a) = fixed (height b)))"
  by (auto simp: operator_ne_def operator_eq_def fne_def feq_def)

end
